theory Spec2Isabelle
  imports Main "HOL-Library.AList"
begin

section \<open>Common values\<close>

text \<open>
  Instants and durations are JavaScript numbers holding whole milliseconds (values of
  \<open>Date.now()\<close>); they are modelled as \<open>int\<close>. Within one synchronous stretch of code
  every call of \<open>Date.now()\<close> is taken to return the same instant \<open>now\<close>.

  A thrown \<open>Error\<close> is a record of the properties the services read: \<open>message\<close>,
  \<open>code\<close>, \<open>retryable\<close> and \<open>retryAfter\<close>; a property that was never assigned
  (\<open>undefined\<close>) is \<open>None\<close>.
\<close>

record jserror =
  message :: string
  code :: "string option"
  retryable :: "bool option"
  retryAfter :: "int option"

text \<open>\<open>Math.ceil(a / d)\<close> for whole numbers \<open>a\<close> and a positive whole \<open>d\<close>.\<close>

definition ceil_div :: "int \<Rightarrow> int \<Rightarrow> int" where
  "ceil_div a d = - ((- a) div d)"

section \<open>CircuitBreaker.js\<close>

datatype breaker_state = CLOSED | OPEN | HALF_OPEN

record breaker_config =
  failureThreshold :: int
  successThreshold :: int
  timeout :: int

record breaker =
  name :: string
  config :: breaker_config
  state :: breaker_state
  failureCount :: int
  successCount :: int
  lastFailureTime :: "int option"
  nextAttemptTime :: "int option"

text \<open>The constructor: a breaker starts \<open>CLOSED\<close> with zero counters.\<close>

definition new_breaker :: "string \<Rightarrow> breaker_config \<Rightarrow> breaker" where
  "new_breaker n c =
     \<lparr>name = n, config = c, state = CLOSED, failureCount = 0, successCount = 0,
      lastFailureTime = None, nextAttemptTime = None\<rparr>"

text \<open>\<open>_setState(newState)\<close>, reading the clock as \<open>now\<close>.\<close>

fun setState :: "int \<Rightarrow> breaker_state \<Rightarrow> breaker \<Rightarrow> breaker" where
  "setState now CLOSED b =
     b\<lparr>state := CLOSED, failureCount := 0, successCount := 0, nextAttemptTime := None\<rparr>"
| "setState now OPEN b =
     b\<lparr>state := OPEN, successCount := 0,
       nextAttemptTime := Some (now + timeout (config b))\<rparr>"
| "setState now HALF_OPEN b =
     b\<lparr>state := HALF_OPEN, successCount := 0\<rparr>"

text \<open>\<open>_onSuccess()\<close>.\<close>

definition onSuccess :: "int \<Rightarrow> breaker \<Rightarrow> breaker" where
  "onSuccess now b =
     (if state b = HALF_OPEN then
        (let b1 = b\<lparr>successCount := successCount b + 1\<rparr>
         in if successCount b1 \<ge> successThreshold (config b1)
            then setState now CLOSED b1 else b1)
      else if state b = CLOSED then b\<lparr>failureCount := 0\<rparr>
      else b)"

text \<open>
  \<open>_onFailure(error)\<close>: the counter and \<open>lastFailureTime\<close> are written first, then the
  guard on \<open>error.retryable === false\<close> returns, then the state is examined.
\<close>

definition onFailure :: "int \<Rightarrow> jserror \<Rightarrow> breaker \<Rightarrow> breaker" where
  "onFailure now err b =
     (let b1 = b\<lparr>failureCount := failureCount b + 1, lastFailureTime := Some now\<rparr>
      in if retryable err = Some False then b1
         else if state b1 = HALF_OPEN then setState now OPEN b1
         else if state b1 = CLOSED \<and> failureCount b1 \<ge> failureThreshold (config b1)
              then setState now OPEN b1
         else b1)"

text \<open>
  The error thrown by \<open>execute\<close> while the circuit is open; \<open>t\<close> is \<open>nextAttemptTime\<close>.
\<close>

definition openError :: "string \<Rightarrow> int \<Rightarrow> int \<Rightarrow> jserror" where
  "openError n t now =
     \<lparr>message = ''Circuit breaker is OPEN for '' @ n,
      code = Some ''CIRCUIT_BREAKER_OPEN'',
      retryable = None,
      retryAfter = Some (ceil_div (t - now) 1000)\<rparr>"

text \<open>
  In \<open>Date.now() < this.nextAttemptTime\<close> a \<open>null\<close> operand is converted to the number 0.
\<close>

definition numberOf :: "int option \<Rightarrow> int" where
  "numberOf t = (case t of None \<Rightarrow> 0 | Some v \<Rightarrow> v)"

text \<open>
  \<open>execute(fn, ...args)\<close>. The wrapped call \<open>fn\<close> acts on the rest of the world \<open>'w\<close>
  (the transport, the network): started at an instant, it yields its outcome (\<open>Inl\<close> a
  thrown error, \<open>Inr\<close> a result), the instant at which it settles, and the new world.
  The breaker's bookkeeping after the \<open>await\<close> reads the clock at that later instant.
\<close>

type_synonym ('w, 'r) call = "int \<Rightarrow> 'w \<Rightarrow> (jserror + 'r) \<times> int \<times> 'w"

definition execute ::
  "('w, 'r) call \<Rightarrow> int \<Rightarrow> breaker \<Rightarrow> 'w \<Rightarrow> (jserror + 'r) \<times> int \<times> breaker \<times> 'w" where
  "execute fn now b w =
     (if state b = OPEN \<and> now < numberOf (nextAttemptTime b)
      then (Inl (openError (name b) (numberOf (nextAttemptTime b)) now), now, b, w)
      else
        (let b1 = (if state b = OPEN then setState now HALF_OPEN b else b)
         in case fn now w of
              (Inr result, now', w') \<Rightarrow> (Inr result, now', onSuccess now' b1, w')
            | (Inl error, now', w') \<Rightarrow> (Inl error, now', onFailure now' error b1, w')))"

text \<open>\<open>reset()\<close>, \<open>forceOpen()\<close> and \<open>canExecute()\<close>.\<close>

definition reset :: "int \<Rightarrow> breaker \<Rightarrow> breaker" where
  "reset now b = setState now CLOSED b"

definition forceOpen :: "int \<Rightarrow> breaker \<Rightarrow> breaker" where
  "forceOpen now b = setState now OPEN b"

definition canExecute :: "int \<Rightarrow> breaker \<Rightarrow> bool" where
  "canExecute now b =
     (if state b = CLOSED \<or> state b = HALF_OPEN then True
      else now \<ge> numberOf (nextAttemptTime b))"

section \<open>IdempotencyManager.js\<close>

text \<open>
  Plain JavaScript objects (the stored results) are association lists from property
  names to values, in insertion order. \<open>JDate t\<close> stands for the ISO string that
  \<open>new Date().toISOString()\<close> yields at instant \<open>t\<close>.
\<close>

datatype jsval =
    JUndefined
  | JNull
  | JBool bool
  | JNum int
  | JStr string
  | JDate int
  | JObj "(string \<times> jsval) list"

type_synonym jsobj = "(string \<times> jsval) list"

text \<open>
  Object spread: \<open>{...base, ...extra}\<close> writes the properties of \<open>extra\<close> over
  \<open>base\<close>; a property already present keeps its position, a new one is appended.
\<close>

definition spread :: "jsobj \<Rightarrow> jsobj \<Rightarrow> jsobj" where
  "spread base extra = fold (\<lambda>(k, v). AList.update k v) extra base"

record entry =
  idempotencyKey :: string
  result :: jsobj
  status :: string
  createdAt :: int
  expiresAt :: int

text \<open>
  The manager: \<open>cache\<close> is the JavaScript \<open>Map\<close> in insertion order (\<open>Map.set\<close> on a
  key already present replaces its value in place, which is \<open>AList.update\<close>;
  \<open>Map.delete\<close> is \<open>AList.delete\<close>), and \<open>ttl\<close> the configured time to live.
\<close>

record idempotencyManager =
  cache :: "(string \<times> entry) list"
  ttl :: int

definition keyRequired :: jserror where
  "keyRequired =
     \<lparr>message = ''Idempotency key is required'', code = None, retryable = None,
      retryAfter = None\<rparr>"

text \<open>
  \<open>get(idempotencyKey)\<close>: throws on an empty key; an entry with \<open>now > expiresAt\<close> is
  deleted and \<open>null\<close> (\<open>None\<close>) is returned.
\<close>

definition idem_get ::
  "int \<Rightarrow> string \<Rightarrow> idempotencyManager \<Rightarrow> jserror + (entry option \<times> idempotencyManager)" where
  "idem_get now key m =
     (if key = [] then Inl keyRequired
      else case map_of (cache m) key of
             None \<Rightarrow> Inr (None, m)
           | Some e \<Rightarrow>
               if now > expiresAt e
               then Inr (None, m\<lparr>cache := AList.delete key (cache m)\<rparr>)
               else Inr (Some e, m))"

text \<open>\<open>set(idempotencyKey, result, status)\<close>.\<close>

definition idem_set ::
  "int \<Rightarrow> string \<Rightarrow> jsobj \<Rightarrow> string \<Rightarrow> idempotencyManager \<Rightarrow> jserror + idempotencyManager" where
  "idem_set now key res st m =
     (if key = [] then Inl keyRequired
      else Inr (m\<lparr>cache :=
             AList.update key
               \<lparr>idempotencyKey = key, result = res, status = st, createdAt = now,
                expiresAt = now + ttl m\<rparr>
               (cache m)\<rparr>))"

text \<open>\<open>markAsPending\<close>, \<open>markAsCompleted\<close> and \<open>markAsFailed\<close>.\<close>

definition markAsPending ::
  "int \<Rightarrow> string \<Rightarrow> jsobj \<Rightarrow> idempotencyManager \<Rightarrow> jserror + idempotencyManager" where
  "markAsPending now key metadata m =
     idem_set now key
       (spread [(''status'', JStr ''pending''), (''startedAt'', JDate now),
                (''attempts'', JNum 0)] metadata)
       ''pending'' m"

definition markAsCompleted ::
  "int \<Rightarrow> string \<Rightarrow> jsobj \<Rightarrow> idempotencyManager \<Rightarrow> jserror + idempotencyManager" where
  "markAsCompleted now key res m =
     idem_set now key (spread res [(''completedAt'', JDate now)]) ''completed'' m"

text \<open>
  The stored copy of a thrown error keeps \<open>message\<close> and \<open>code\<close>; its \<open>stack\<close>, a
  trace text produced by the engine, is not modelled.
\<close>

definition errorObj :: "jserror \<Rightarrow> jsobj" where
  "errorObj err =
     [(''message'', JStr (message err)),
      (''code'', (case code err of None \<Rightarrow> JUndefined | Some c \<Rightarrow> JStr c))]"

definition markAsFailed ::
  "int \<Rightarrow> string \<Rightarrow> jserror \<Rightarrow> idempotencyManager \<Rightarrow> jserror + idempotencyManager" where
  "markAsFailed now key err m =
     idem_set now key [(''error'', JObj (errorObj err)), (''failedAt'', JDate now)]
       ''failed'' m"

text \<open>
  \<open>cleanupExpired()\<close>: the loop visits the entries of the map in order, deletes each
  one with \<open>now > expiresAt\<close> and counts the deletions.
\<close>

fun cleanupLoop ::
  "int \<Rightarrow> (string \<times> entry) list \<Rightarrow> (string \<times> entry) list \<Rightarrow> int
     \<Rightarrow> (string \<times> entry) list \<times> int" where
  "cleanupLoop now [] c cleaned = (c, cleaned)"
| "cleanupLoop now ((key, e) # rest) c cleaned =
     (if now > expiresAt e
      then cleanupLoop now rest (AList.delete key c) (cleaned + 1)
      else cleanupLoop now rest c cleaned)"

definition idem_cleanupExpired :: "int \<Rightarrow> idempotencyManager \<Rightarrow> int \<times> idempotencyManager" where
  "idem_cleanupExpired now m =
     (case cleanupLoop now (cache m) (cache m) 0 of
        (c, cleaned) \<Rightarrow> (cleaned, m\<lparr>cache := c\<rparr>))"

section \<open>RateLimiter.js\<close>

record bucket =
  tokens :: int
  lastRefill :: int
  requests :: "int list"

record limiter_config =
  windowMs :: int
  maxRequests :: int

text \<open>The object returned by \<open>checkLimit\<close>; \<open>retryAfter: null\<close> is \<open>None\<close>.\<close>

record limit_result =
  allowed :: bool
  res_tokens :: int
  resetTime :: int
  res_retryAfter :: "int option"

text \<open>\<open>_refillBucket(bucket, now)\<close>.\<close>

definition refillBucket :: "limiter_config \<Rightarrow> int \<Rightarrow> bucket \<Rightarrow> bucket" where
  "refillBucket cfg now b =
     (if now - lastRefill b \<ge> windowMs cfg
      then b\<lparr>tokens := maxRequests cfg, lastRefill := now,
             requests := filter (\<lambda>req. now - req < windowMs cfg) (requests b)\<rparr>
      else b)"

text \<open>The bucket created for a key seen for the first time.\<close>

definition freshBucket :: "limiter_config \<Rightarrow> int \<Rightarrow> bucket" where
  "freshBucket cfg now = \<lparr>tokens = maxRequests cfg, lastRefill = now, requests = []\<rparr>"

text \<open>
  \<open>checkLimit(req)\<close>, with \<open>key\<close> the value of \<open>keyGenerator(req)\<close>; \<open>buckets\<close> is the
  \<open>Map\<close> of buckets. The bucket object is mutated in place, so the map holds the
  refilled and charged bucket afterwards.
\<close>

definition checkLimit ::
  "limiter_config \<Rightarrow> string \<Rightarrow> int \<Rightarrow> (string \<times> bucket) list
     \<Rightarrow> limit_result \<times> (string \<times> bucket) list" where
  "checkLimit cfg key now buckets =
     (let b0 = (case map_of buckets key of None \<Rightarrow> freshBucket cfg now | Some b \<Rightarrow> b);
          b1 = refillBucket cfg now b0
      in if tokens b1 > 0 then
           (let b2 = b1\<lparr>tokens := tokens b1 - 1, requests := requests b1 @ [now]\<rparr>
            in (\<lparr>allowed = True, res_tokens = tokens b2,
                 resetTime = lastRefill b2 + windowMs cfg, res_retryAfter = None\<rparr>,
                AList.update key b2 buckets))
         else
           (\<lparr>allowed = False, res_tokens = 0,
             resetTime = lastRefill b1 + windowMs cfg,
             res_retryAfter = Some (ceil_div (lastRefill b1 + windowMs cfg - now) 1000)\<rparr>,
            AList.update key b1 buckets))"

section \<open>EmailQueue (the queue module, in RateLimiter.js)\<close>

text \<open>
  The data of a job is what \<open>sendEmail\<close> hands to the queue. A number that may be
  absent is an \<open>int option\<close>.
\<close>

record emailData =
  to :: string
  subject :: string
  body :: string
  idemKey :: string
  priority :: "int option"
  delay :: "int option"

record add_options =
  opt_priority :: "int option"
  opt_delay :: "int option"

record job =
  job_id :: string
  job_data :: emailData
  job_attempts :: int
  job_maxRetries :: int
  job_createdAt :: int
  job_status :: string
  job_priority :: int
  job_delay :: int
  job_executeAfter :: "int option"
  job_startedAt :: "int option"
  job_completedAt :: "int option"
  job_failedAt :: "int option"
  job_result :: "jsobj option"
  job_error :: "jserror option"

record queue_config =
  q_maxRetries :: int
  retryDelay :: int
  maxConcurrency :: int
  jobTimeout :: int

text \<open>
  The queue: the waiting list \<open>queue\<close>, the two history lists and the flag
  \<open>isProcessing\<close>. The map of jobs being processed and the timers are not modelled.
\<close>

record emailQueue =
  q_config :: queue_config
  queue :: "job list"
  completed :: "job list"
  failed :: "job list"
  isProcessing :: bool

text \<open>\<open>a || d\<close> on a number that may be absent: \<open>undefined\<close> and \<open>0\<close> are falsy.\<close>

definition orElse :: "int option \<Rightarrow> int \<Rightarrow> int" where
  "orElse a d = (case a of None \<Rightarrow> d | Some v \<Rightarrow> if v = 0 then d else v)"

text \<open>
  \<open>_insertByPriority(job)\<close>: the job is spliced in before the first queued job of
  strictly lower priority, or pushed at the end.
\<close>

fun insertByPriority :: "job \<Rightarrow> job list \<Rightarrow> job list" where
  "insertByPriority j [] = [j]"
| "insertByPriority j (x # xs) =
     (if job_priority j > job_priority x then j # x # xs
      else x # insertByPriority j xs)"

text \<open>
  \<open>add(jobData, options)\<close>; \<open>jid\<close> is the identifier that \<open>_generateJobId()\<close> yields
  (a time stamp and a random suffix).
\<close>

definition queue_add ::
  "int \<Rightarrow> string \<Rightarrow> emailData \<Rightarrow> add_options \<Rightarrow> emailQueue \<Rightarrow> string \<times> emailQueue" where
  "queue_add now jid jobData options q =
     (let d = orElse (opt_delay options) (orElse (delay jobData) 0);
          j = \<lparr>job_id = jid, job_data = jobData, job_attempts = 0,
               job_maxRetries = q_maxRetries (q_config q), job_createdAt = now,
               job_status = ''queued'',
               job_priority = orElse (opt_priority options) (orElse (priority jobData) 0),
               job_delay = d,
               job_executeAfter = (if d > 0 then Some (now + d) else None),
               job_startedAt = None, job_completedAt = None, job_failedAt = None,
               job_result = None, job_error = None\<rparr>
      in (jid, q\<lparr>queue := insertByPriority j (queue q), isProcessing := True\<rparr>))"

text \<open>
  The readiness test of \<open>_getNextJob\<close>:
  \<open>!job.executeAfter || now >= job.executeAfter\<close>.
\<close>

definition ready :: "int \<Rightarrow> job \<Rightarrow> bool" where
  "ready now j =
     (case job_executeAfter j of None \<Rightarrow> True | Some t \<Rightarrow> t = 0 \<or> now \<ge> t)"

text \<open>
  The scan of \<open>_getNextJob\<close>: \<open>i\<close> is the index of the job at the head of the part
  still to be scanned; the pair is \<open>(bestJobIndex, bestPriority)\<close>.
\<close>

fun scanBest :: "int \<Rightarrow> job list \<Rightarrow> int \<Rightarrow> int \<times> int \<Rightarrow> int \<times> int" where
  "scanBest now [] i best = best"
| "scanBest now (j # js) i (bestJobIndex, bestPriority) =
     (if ready now j \<and> job_priority j > bestPriority
      then scanBest now js (i + 1) (i, job_priority j)
      else scanBest now js (i + 1) (bestJobIndex, bestPriority))"

text \<open>
  \<open>_getNextJob()\<close>: the chosen job is spliced out of the queue. At an index beyond
  the end \<open>splice\<close> removes nothing and the function returns no job.
\<close>

definition getNextJob :: "int \<Rightarrow> emailQueue \<Rightarrow> job option \<times> emailQueue" where
  "getNextJob now q =
     (case scanBest now (queue q) 0 (- 1, - 1) of
        (bestJobIndex, bestPriority) \<Rightarrow>
          if bestJobIndex \<ge> 0 then
            (if nat bestJobIndex < length (queue q)
             then (Some (queue q ! nat bestJobIndex),
                   q\<lparr>queue := take (nat bestJobIndex) (queue q)
                                @ drop (nat bestJobIndex + 1) (queue q)\<rparr>)
             else (None, q))
          else (None, q))"

text \<open>
  \<open>_processJob(job)\<close>, started at \<open>start\<close>; \<open>outcome\<close> is what the processor yields
  for the job's data and \<open>settle\<close> the instant at which it does.
\<close>

definition processJob ::
  "int \<Rightarrow> jserror + jsobj \<Rightarrow> int \<Rightarrow> job \<Rightarrow> emailQueue \<Rightarrow> emailQueue" where
  "processJob start outcome settle j q =
     (let j1 = j\<lparr>job_attempts := job_attempts j + 1, job_status := ''processing'',
                 job_startedAt := Some start\<rparr>
      in case outcome of
           Inr res \<Rightarrow>
             q\<lparr>completed := completed q @
                 [j1\<lparr>job_status := ''completed'', job_completedAt := Some settle,
                     job_result := Some res\<rparr>]\<rparr>
         | Inl err \<Rightarrow>
             if job_attempts j1 < job_maxRetries j1 \<and> retryable err \<noteq> Some False
             then q\<lparr>queue := insertByPriority
                     (j1\<lparr>job_status := ''retrying'',
                         job_executeAfter :=
                           Some (settle + retryDelay (q_config q) * job_attempts j1)\<rparr>)
                     (queue q)\<rparr>
             else q\<lparr>failed := failed q @
                     [j1\<lparr>job_status := ''failed'', job_failedAt := Some settle,
                         job_error := Some err\<rparr>]\<rparr>)"

text \<open>The constructor of the queue.\<close>

definition new_queue :: "queue_config \<Rightarrow> emailQueue" where
  "new_queue c = \<lparr>q_config = c, queue = [], completed = [], failed = [], isProcessing = False\<rparr>"

text \<open>
  A run of the queue used below. Job \<open>job_a\<close> is added at instant 0 and job \<open>job_b\<close>,
  of the same priority and with a delay of 10 s, at instant 1; at instant 2 a worker
  takes the next job, whose processor throws a retryable error at instant 3, so that
  the job is put back for a retry.
\<close>

definition defaultQueueConfig :: queue_config where
  "defaultQueueConfig =
     \<lparr>q_maxRetries = 3, retryDelay = 5000, maxConcurrency = 5, jobTimeout = 90000\<rparr>"

definition temporaryFailure :: jserror where
  "temporaryFailure =
     \<lparr>message = ''Temporary service unavailable'', code = Some ''TEMPORARY_FAILURE'',
      retryable = Some True, retryAfter = None\<rparr>"

definition twoQueued :: emailQueue where
  "twoQueued =
     snd (queue_add 1 ''job_b''
            \<lparr>to = ''b@example.com'', subject = ''s'', body = ''x'', idemKey = ''rb'',
             priority = Some 0, delay = Some 10000\<rparr>
            \<lparr>opt_priority = None, opt_delay = None\<rparr>
       (snd (queue_add 0 ''job_a''
            \<lparr>to = ''a@example.com'', subject = ''s'', body = ''x'', idemKey = ''ra'',
             priority = Some 0, delay = Some 0\<rparr>
            \<lparr>opt_priority = None, opt_delay = None\<rparr>
            (new_queue defaultQueueConfig))))"

definition afterRetry :: emailQueue where
  "afterRetry =
     (case getNextJob 2 twoQueued of
        (Some j, q) \<Rightarrow> processJob 2 (Inl temporaryFailure) 3 j q
      | (None, q) \<Rightarrow> q)"

section \<open>EmailService.js\<close>

text \<open>
  The configuration; its numbers (milliseconds, counts and the multiplier of the
  back-off) are taken to be whole, as the defaults are.
\<close>

record service_config =
  maxRetries :: int
  initialRetryDelay :: int
  maxRetryDelay :: int
  retryMultiplier :: int
  enableCircuitBreaker :: bool
  enableRateLimit :: bool
  enableQueue :: bool

definition defaultServiceConfig :: service_config where
  "defaultServiceConfig =
     \<lparr>maxRetries = 3, initialRetryDelay = 1000, maxRetryDelay = 30000,
      retryMultiplier = 2, enableCircuitBreaker = True, enableRateLimit = True,
      enableQueue = True\<rparr>"

text \<open>
  The test \<open>/^[^\s@]+@[^\s@]+\.[^\s@]+$/\<close> on a string of code units below 256, where
  \<open>\s\<close> is tab, line feed, vertical tab, form feed, carriage return, space and the
  no-break space. A match is a non-empty run free of white space and \<open>@\<close>, then \<open>@\<close>,
  then such a run holding a dot that is neither its first nor its last character.
\<close>

definition isSpace :: "char \<Rightarrow> bool" where
  "isSpace c =
     (c \<in> set [CHR 0x09, CHR 0x0A, CHR 0x0B, CHR 0x0C, CHR 0x0D, CHR 0x20, CHR 0xA0])"

definition plainChar :: "char \<Rightarrow> bool" where
  "plainChar c = (\<not> isSpace c \<and> c \<noteq> CHR ''@'')"

definition emailRegex_test :: "string \<Rightarrow> bool" where
  "emailRegex_test s =
     (takeWhile plainChar s \<noteq> [] \<and>
      (case dropWhile plainChar s of
         [] \<Rightarrow> False
       | c # host \<Rightarrow>
           c = CHR ''@'' \<and> list_all plainChar host \<and> CHR ''.'' \<in> set (butlast (tl host))))"

definition plainError :: "string \<Rightarrow> jserror" where
  "plainError msg = \<lparr>message = msg, code = None, retryable = None, retryAfter = None\<rparr>"

text \<open>\<open>_validateEmailData\<close>: the error thrown, if any.\<close>

definition validateEmailData :: "emailData \<Rightarrow> jserror option" where
  "validateEmailData d =
     (if to d = [] then Some (plainError ''Email recipient (to) is required'')
      else if subject d = [] then Some (plainError ''Email subject is required'')
      else if body d = [] then Some (plainError ''Email body is required'')
      else if idemKey d = [] then Some (plainError ''Idempotency key is required'')
      else if \<not> emailRegex_test (to d) then Some (plainError ''Invalid email address format'')
      else None)"

text \<open>
  The service owns a queue and shares the idempotency manager; \<open>world\<close> is everything
  else that processing an email touches (providers, breakers).
\<close>

record 'w emailService =
  svc_config :: service_config
  mailQueue :: emailQueue
  idem :: idempotencyManager
  world :: 'w

text \<open>
  \<open>_processEmailDirectly\<close> as seen from \<open>sendEmail\<close>: started at an instant on a state
  of the service, it yields a result or throws, at a later instant, in a new state.
\<close>

type_synonym 'w direct =
  "emailData \<Rightarrow> int \<Rightarrow> 'w emailService \<Rightarrow> (jserror + jsobj) \<times> int \<times> 'w emailService"

definition pendingReply :: "string \<Rightarrow> jsobj" where
  "pendingReply key =
     [(''success'', JBool False), (''status'', JStr ''pending''),
      (''message'', JStr ''Email is already being processed''),
      (''idempotencyKey'', JStr key)]"

definition queuedReply :: "string \<Rightarrow> string \<Rightarrow> jsobj" where
  "queuedReply jobId key =
     [(''success'', JBool True), (''status'', JStr ''queued''), (''jobId'', JStr jobId),
      (''idempotencyKey'', JStr key), (''message'', JStr ''Email queued for processing'')]"

definition errorResult :: "jserror \<Rightarrow> string \<Rightarrow> jsobj" where
  "errorResult err key =
     [(''success'', JBool False), (''status'', JStr ''failed''),
      (''error'', JStr (message err)),
      (''code'', (case code err of None \<Rightarrow> JUndefined | Some c \<Rightarrow> JStr c)),
      (''idempotencyKey'', JStr key)]"

text \<open>The \<open>catch\<close> block of \<open>sendEmail\<close>.\<close>

definition sendFailed ::
  "jserror \<Rightarrow> string \<Rightarrow> int \<Rightarrow> 'w emailService
     \<Rightarrow> (jserror + jsobj) \<times> int \<times> 'w emailService" where
  "sendFailed err key now s =
     (case markAsFailed now key err (idem s) of
        Inl thrown \<Rightarrow> (Inl thrown, now, s)
      | Inr m \<Rightarrow> (Inr (errorResult err key), now, s\<lparr>idem := m\<rparr>))"

text \<open>
  \<open>sendEmail(emailData)\<close> called at instant \<open>now\<close>; \<open>jid\<close> is the identifier the queue
  would generate. The outcome is \<open>Inl\<close> for a rejected promise and \<open>Inr\<close> for the
  object returned, with the instant of completion and the new state.
\<close>

definition sendEmail ::
  "'w direct \<Rightarrow> int \<Rightarrow> string \<Rightarrow> emailData \<Rightarrow> 'w emailService
     \<Rightarrow> (jserror + jsobj) \<times> int \<times> 'w emailService" where
  "sendEmail direct now jid d s =
     (case validateEmailData d of
        Some err \<Rightarrow> (Inl err, now, s)
      | None \<Rightarrow>
          (case idem_get now (idemKey d) (idem s) of
             Inl err \<Rightarrow> (Inl err, now, s)
           | Inr (Some existingResult, m1) \<Rightarrow>
               if status existingResult = ''pending''
               then (Inr (pendingReply (idemKey d)), now, s\<lparr>idem := m1\<rparr>)
               else (Inr (result existingResult), now, s\<lparr>idem := m1\<rparr>)
           | Inr (None, m1) \<Rightarrow>
               (case markAsPending now (idemKey d)
                       [(''to'', JStr (to d)), (''subject'', JStr (subject d)),
                        (''startedAt'', JDate now)] m1 of
                  Inl err \<Rightarrow> (Inl err, now, s\<lparr>idem := m1\<rparr>)
                | Inr m2 \<Rightarrow>
                    if enableQueue (svc_config s) then
                      (case queue_add now jid
                              \<lparr>to = to d, subject = subject d, body = body d,
                               idemKey = idemKey d,
                               priority = Some (case priority d of None \<Rightarrow> 0 | Some p \<Rightarrow> p),
                               delay = Some (case delay d of None \<Rightarrow> 0 | Some t \<Rightarrow> t)\<rparr>
                              \<lparr>opt_priority = None, opt_delay = None\<rparr> (mailQueue s) of
                         (jobId, q') \<Rightarrow>
                           (case markAsCompleted now (idemKey d)
                                   (queuedReply jobId (idemKey d)) m2 of
                              Inl err \<Rightarrow>
                                sendFailed err (idemKey d) now (s\<lparr>mailQueue := q', idem := m2\<rparr>)
                            | Inr m3 \<Rightarrow>
                                (Inr (queuedReply jobId (idemKey d)), now,
                                 s\<lparr>mailQueue := q', idem := m3\<rparr>)))
                    else
                      (case direct
                              \<lparr>to = to d, subject = subject d, body = body d,
                               idemKey = idemKey d, priority = None, delay = None\<rparr>
                              now (s\<lparr>idem := m2\<rparr>) of
                         (Inl err, now', s') \<Rightarrow> sendFailed err (idemKey d) now' s'
                       | (Inr res, now', s') \<Rightarrow>
                           (case markAsCompleted now' (idemKey d) res (idem s') of
                              Inl err \<Rightarrow> sendFailed err (idemKey d) now' s'
                            | Inr m3 \<Rightarrow> (Inr res, now', s'\<lparr>idem := m3\<rparr>))))))"

text \<open>
  One attempt of \<open>_sendWithProvider\<close>: through the breaker of the provider when
  circuit breaking is enabled (\<open>Some\<close>), directly otherwise.
\<close>

definition callProvider ::
  "('w, 'r) call \<Rightarrow> int \<Rightarrow> breaker option \<Rightarrow> 'w
     \<Rightarrow> (jserror + 'r) \<times> int \<times> breaker option \<times> 'w" where
  "callProvider fn now cb w =
     (case cb of
        None \<Rightarrow> (case fn now w of (r, now', w') \<Rightarrow> (r, now', None, w'))
      | Some b \<Rightarrow> (case execute fn now b w of (r, now', b', w') \<Rightarrow> (r, now', Some b', w')))"

text \<open>
  The delay before the next attempt,
  \<open>error.retryAfter ? error.retryAfter * 1000 : delay\<close>; \<open>backoff\<close> is the value of
  the local variable \<open>delay\<close>.
\<close>

definition actualDelay :: "jserror \<Rightarrow> int \<Rightarrow> int" where
  "actualDelay err backoff =
     (case retryAfter err of
        None \<Rightarrow> backoff
      | Some secs \<Rightarrow> if secs \<noteq> 0 then secs * 1000 else backoff)"

text \<open>
  The retry loop of \<open>_sendWithProvider\<close>, entered with \<open>attempt\<close> attempts made and the
  current back-off delay \<open>backoff\<close>. \<open>sleeps\<close> lists the arguments of \<open>_sleep\<close> so far,
  in order; a sleep moves the clock on by its length. The result \<open>Inr None\<close> is the
  \<open>undefined\<close> returned when the loop ends without an attempt. The attempt counters
  that the loop writes to the idempotency manager inside \<open>try\<close>/\<open>catch\<close> do not
  influence it and are not modelled.
\<close>

function sendWithProvider ::
  "service_config \<Rightarrow> ('w, 'r) call \<Rightarrow> int \<Rightarrow> int \<Rightarrow> int \<Rightarrow> breaker option \<Rightarrow> 'w \<Rightarrow> int list
     \<Rightarrow> (jserror + 'r option) \<times> int \<times> breaker option \<times> 'w \<times> int list" where
  "sendWithProvider cfg fn attempt backoff now cb w sleeps =
     (if attempt < maxRetries cfg then
        (case callProvider fn now cb w of
           (Inr res, now', cb', w') \<Rightarrow> (Inr (Some res), now', cb', w', sleeps)
         | (Inl err, now', cb', w') \<Rightarrow>
             if attempt + 1 \<ge> maxRetries cfg \<or> retryable err = Some False
             then (Inl err, now', cb', w', sleeps)
             else if attempt + 1 < maxRetries cfg
             then sendWithProvider cfg fn (attempt + 1)
                    (min (backoff * retryMultiplier cfg) (maxRetryDelay cfg))
                    (now' + max 0 (actualDelay err backoff)) cb' w'
                    (sleeps @ [actualDelay err backoff])
             else sendWithProvider cfg fn (attempt + 1) backoff now' cb' w' sleeps)
      else (Inr None, now, cb, w, sleeps))"
  by pat_completeness auto
termination
  by (relation "measure (\<lambda>(cfg, fn, attempt, backoff, now, cb, w, sleeps).
                   nat (maxRetries cfg - attempt))") auto

declare sendWithProvider.simps [simp del]

text \<open>
  \<open>_sendWithProvider\<close> from its start, and a transport that answers with the next
  outcome of a script (its world is the rest of the script) at once.
\<close>

definition sendWithProviderFromStart ::
  "service_config \<Rightarrow> ('w, 'r) call \<Rightarrow> int \<Rightarrow> breaker option \<Rightarrow> 'w
     \<Rightarrow> (jserror + 'r option) \<times> int \<times> breaker option \<times> 'w \<times> int list" where
  "sendWithProviderFromStart cfg fn now cb w =
     sendWithProvider cfg fn 0 (initialRetryDelay cfg) now cb w []"

definition scripted :: "((jserror + 'r) list, 'r) call" where
  "scripted now script =
     (case script of
        [] \<Rightarrow> (Inl (plainError ''no reply''), now, [])
      | outcome # rest \<Rightarrow> (outcome, now, rest))"

text \<open>
  The rate-limit error that \<open>SecondaryEmailProvider.sendEmail\<close> throws:
  \<open>error.retryAfter = 10000; // 10 seconds\<close>.
\<close>

definition quotaExceeded :: jserror where
  "quotaExceeded =
     \<lparr>message = ''Daily quota exceeded'', code = Some ''QUOTA_EXCEEDED'',
      retryable = Some True, retryAfter = Some 10000\<rparr>"

text \<open>
  A run of \<open>sendEmail\<close> used below: on a fresh service with the queue enabled, the
  request \<open>r5\<close> is submitted at instant 1000.
\<close>

definition r5 :: emailData where
  "r5 = \<lparr>to = ''a@b.co'', subject = ''s'', body = ''x'', idemKey = ''r5'',
         priority = None, delay = None\<rparr>"

definition freshService :: "unit emailService" where
  "freshService =
     \<lparr>svc_config = defaultServiceConfig, mailQueue = new_queue defaultQueueConfig,
      idem = \<lparr>cache = [], ttl = 86400000\<rparr>, world = ()\<rparr>"

definition neverDirect :: "unit direct" where
  "neverDirect d now s = (Inl (plainError ''not processed directly''), now, s)"

definition afterFirstSubmit :: "unit emailService" where
  "afterFirstSubmit = snd (snd (sendEmail neverDirect 1000 ''job_1'' r5 freshService))"

section \<open>Properties of the circuit breaker\<close>

lemma setState_config [simp]: "config (setState now s b) = config b"
  by (cases s) simp_all

lemma setState_state [simp]: "state (setState now s b) = s"
  by (cases s) simp_all

text \<open>
  C1. The claim: only retryable failures increment the failure counter; a failure with
  \<open>retryable === false\<close> leaves it unchanged. In the code the increment precedes the
  guard, so a non-retryable failure raises the counter too: on a fresh closed breaker
  with threshold 3 one such failure gives \<open>failureCount = 1\<close>, and after two of them a
  single retryable failure opens the circuit.
\<close>

theorem onFailure_counts_nonretryable:
  "failureCount (onFailure 1000
      \<lparr>message = ''Invalid email format'', code = Some ''INVALID_EMAIL'',
       retryable = Some False, retryAfter = None\<rparr>
      (new_breaker ''primary''
        \<lparr>failureThreshold = 3, successThreshold = 2, timeout = 30000\<rparr>)) = 1
   \<and> state (onFailure 1002
        \<lparr>message = ''Temporary service unavailable'', code = Some ''TEMPORARY_FAILURE'',
         retryable = Some True, retryAfter = None\<rparr>
        (onFailure 1001
          \<lparr>message = ''Invalid email format'', code = Some ''INVALID_EMAIL'',
           retryable = Some False, retryAfter = None\<rparr>
          (onFailure 1000
            \<lparr>message = ''Invalid email format'', code = Some ''INVALID_EMAIL'',
             retryable = Some False, retryAfter = None\<rparr>
            (new_breaker ''primary''
              \<lparr>failureThreshold = 3, successThreshold = 2, timeout = 30000\<rparr>)))) = OPEN"
  by (simp add: onFailure_def new_breaker_def)

text \<open>
  C5. The claim: in \<open>HALF_OPEN\<close> any failure, whatever its retryability, reopens the
  circuit. A failure with \<open>retryable === false\<close> returns at the guard and the breaker
  stays \<open>HALF_OPEN\<close>.
\<close>

theorem halfOpen_nonretryable_stays_halfOpen:
  "state (onFailure 5000
      \<lparr>message = ''Invalid email format'', code = Some ''INVALID_EMAIL'',
       retryable = Some False, retryAfter = None\<rparr>
      \<lparr>name = ''primary'',
       config = \<lparr>failureThreshold = 5, successThreshold = 2, timeout = 30000\<rparr>,
       state = HALF_OPEN, failureCount = 5, successCount = 0,
       lastFailureTime = Some 1000, nextAttemptTime = Some 4000\<rparr>) \<noteq> OPEN"
  by (simp add: onFailure_def)

text \<open>
  C5, amended. In \<open>HALF_OPEN\<close> a failure whose \<open>retryable\<close> is not \<open>false\<close> moves the
  breaker to \<open>OPEN\<close> with \<open>nextAttemptTime = now + timeout\<close> and \<open>successCount = 0\<close>; a
  failure with \<open>retryable === false\<close> leaves it \<open>HALF_OPEN\<close> with \<open>nextAttemptTime\<close>
  and \<open>successCount\<close> as they were.
\<close>

theorem halfOpen_onFailure:
  assumes "state b = HALF_OPEN"
  shows "(retryable err \<noteq> Some False \<longrightarrow>
            state (onFailure now err b) = OPEN
          \<and> nextAttemptTime (onFailure now err b) = Some (now + timeout (config b))
          \<and> successCount (onFailure now err b) = 0)
       \<and> (retryable err = Some False \<longrightarrow>
            state (onFailure now err b) = HALF_OPEN
          \<and> nextAttemptTime (onFailure now err b) = nextAttemptTime b
          \<and> successCount (onFailure now err b) = successCount b)"
  using assms by (simp add: onFailure_def)

theorem halfOpen_onFailure_witness:
  "state (onFailure 5000
      \<lparr>message = ''Temporary service unavailable'', code = Some ''TEMPORARY_FAILURE'',
       retryable = Some True, retryAfter = None\<rparr>
      \<lparr>name = ''primary'',
       config = \<lparr>failureThreshold = 5, successThreshold = 2, timeout = 30000\<rparr>,
       state = HALF_OPEN, failureCount = 5, successCount = 1,
       lastFailureTime = Some 1000, nextAttemptTime = Some 4000\<rparr>) = OPEN
   \<and> nextAttemptTime (onFailure 5000
      \<lparr>message = ''Temporary service unavailable'', code = Some ''TEMPORARY_FAILURE'',
       retryable = Some True, retryAfter = None\<rparr>
      \<lparr>name = ''primary'',
       config = \<lparr>failureThreshold = 5, successThreshold = 2, timeout = 30000\<rparr>,
       state = HALF_OPEN, failureCount = 5, successCount = 1,
       lastFailureTime = Some 1000, nextAttemptTime = Some 4000\<rparr>) = Some 35000
   \<and> state (onFailure 5000
      \<lparr>message = ''Invalid email format'', code = Some ''INVALID_EMAIL'',
       retryable = Some False, retryAfter = None\<rparr>
      \<lparr>name = ''primary'',
       config = \<lparr>failureThreshold = 5, successThreshold = 2, timeout = 30000\<rparr>,
       state = HALF_OPEN, failureCount = 5, successCount = 1,
       lastFailureTime = Some 1000, nextAttemptTime = Some 4000\<rparr>) = HALF_OPEN"
  using
    halfOpen_onFailure [of
      "\<lparr>name = ''primary'',
        config = \<lparr>failureThreshold = 5, successThreshold = 2, timeout = 30000\<rparr>,
        state = HALF_OPEN, failureCount = 5, successCount = 1,
        lastFailureTime = Some 1000, nextAttemptTime = Some 4000\<rparr>"
      "\<lparr>message = ''Temporary service unavailable'', code = Some ''TEMPORARY_FAILURE'',
        retryable = Some True, retryAfter = None\<rparr>" 5000]
    halfOpen_onFailure [of
      "\<lparr>name = ''primary'',
        config = \<lparr>failureThreshold = 5, successThreshold = 2, timeout = 30000\<rparr>,
        state = HALF_OPEN, failureCount = 5, successCount = 1,
        lastFailureTime = Some 1000, nextAttemptTime = Some 4000\<rparr>"
      "\<lparr>message = ''Invalid email format'', code = Some ''INVALID_EMAIL'',
        retryable = Some False, retryAfter = None\<rparr>" 5000]
  by simp

text \<open>
  C10. With the breaker \<open>OPEN\<close> and \<open>now\<close> strictly before \<open>nextAttemptTime\<close>,
  \<open>execute\<close> throws the error with code \<open>CIRCUIT_BREAKER_OPEN\<close>; whatever the wrapped
  call is, it is not run (the world is returned as it was, at the same instant), and
  the breaker, with its state, both counters and \<open>nextAttemptTime\<close>, is unchanged.
\<close>

theorem execute_open_fails_fast:
  assumes "state b = OPEN" and "nextAttemptTime b = Some t" and "now < t"
  shows "execute fn now b w = (Inl (openError (name b) t now), now, b, w)
       \<and> code (openError (name b) t now) = Some ''CIRCUIT_BREAKER_OPEN''"
  using assms by (simp add: execute_def numberOf_def openError_def)

theorem execute_open_fails_fast_witness:
  "execute (\<lambda>t (n::nat). (Inr ''sent'', t + 300, Suc n)) 2000
      \<lparr>name = ''primary'',
       config = \<lparr>failureThreshold = 5, successThreshold = 2, timeout = 30000\<rparr>,
       state = OPEN, failureCount = 5, successCount = 0,
       lastFailureTime = Some 1000, nextAttemptTime = Some 31000\<rparr> 0
   = (Inl \<lparr>message = ''Circuit breaker is OPEN for primary'',
           code = Some ''CIRCUIT_BREAKER_OPEN'', retryable = None, retryAfter = Some 29\<rparr>,
      2000,
      \<lparr>name = ''primary'',
       config = \<lparr>failureThreshold = 5, successThreshold = 2, timeout = 30000\<rparr>,
       state = OPEN, failureCount = 5, successCount = 0,
       lastFailureTime = Some 1000, nextAttemptTime = Some 31000\<rparr>, 0)"
  using execute_open_fails_fast [of
      "\<lparr>name = ''primary'',
        config = \<lparr>failureThreshold = 5, successThreshold = 2, timeout = 30000\<rparr>,
        state = OPEN, failureCount = 5, successCount = 0,
        lastFailureTime = Some 1000, nextAttemptTime = Some 31000\<rparr>"
      31000 2000 "\<lambda>t (n::nat). (Inr ''sent'', t + 300, Suc n)" 0]
  by (simp add: openError_def ceil_div_def)

section \<open>Properties of the idempotency manager\<close>

text \<open>
  The cache of a manager is a \<open>Map\<close>, so its keys are distinct; \<open>idem_set\<close> keeps
  them so.
\<close>

lemma idem_set_distinct:
  "distinct (map fst (cache m)) \<Longrightarrow> idem_set now key res st m = Inr m'
     \<Longrightarrow> distinct (map fst (cache m'))"
  by (auto simp: idem_set_def distinct_update split: if_splits)

text \<open>
  C2. The claim: a second \<open>complete\<close> or \<open>fail\<close> on a record already terminal keeps
  the first terminal value. \<open>markAsCompleted\<close> and \<open>markAsFailed\<close> go through \<open>set\<close>,
  which writes unconditionally: a record completed at instant 1000 with message id
  \<open>m-1\<close> and then failed at instant 2000 holds the failure, with status \<open>failed\<close>.
\<close>

theorem terminal_value_overwritten:
  "markAsCompleted 1000 ''r1'' [(''messageId'', JStr ''m-1'')] \<lparr>cache = [], ttl = 86400000\<rparr>
   = Inr \<lparr>cache =
       [(''r1'', \<lparr>idempotencyKey = ''r1'',
                 result = [(''messageId'', JStr ''m-1''), (''completedAt'', JDate 1000)],
                 status = ''completed'', createdAt = 1000, expiresAt = 86401000\<rparr>)],
      ttl = 86400000\<rparr>
   \<and> markAsFailed 2000 ''r1''
       \<lparr>message = ''Temporary service unavailable'', code = Some ''TEMPORARY_FAILURE'',
        retryable = Some True, retryAfter = None\<rparr>
       \<lparr>cache =
         [(''r1'', \<lparr>idempotencyKey = ''r1'',
                   result = [(''messageId'', JStr ''m-1''), (''completedAt'', JDate 1000)],
                   status = ''completed'', createdAt = 1000, expiresAt = 86401000\<rparr>)],
        ttl = 86400000\<rparr>
   = Inr \<lparr>cache =
       [(''r1'', \<lparr>idempotencyKey = ''r1'',
                 result =
                   [(''error'', JObj [(''message'', JStr ''Temporary service unavailable''),
                                      (''code'', JStr ''TEMPORARY_FAILURE'')]),
                    (''failedAt'', JDate 2000)],
                 status = ''failed'', createdAt = 2000, expiresAt = 86402000\<rparr>)],
      ttl = 86400000\<rparr>"
  by (simp add: markAsCompleted_def markAsFailed_def idem_set_def spread_def errorObj_def)

text \<open>
  C2, amended. For a key whose record is already \<open>completed\<close> or \<open>failed\<close>,
  \<open>markAsCompleted\<close> and \<open>markAsFailed\<close> succeed and replace the record by the value
  of this call (last write wins): the stored record carries the new result, the new
  status and fresh \<open>createdAt\<close> and \<open>expiresAt\<close>. The status they store is
  \<open>completed\<close> or \<open>failed\<close>, never \<open>pending\<close>.
\<close>

theorem terminal_last_write_wins:
  assumes "key \<noteq> []" and "map_of (cache m) key = Some e0"
    and "status e0 = ''completed'' \<or> status e0 = ''failed''"
  shows "(\<exists>m'. markAsCompleted now key res m = Inr m'
            \<and> map_of (cache m') key =
                Some \<lparr>idempotencyKey = key,
                      result = spread res [(''completedAt'', JDate now)],
                      status = ''completed'', createdAt = now, expiresAt = now + ttl m\<rparr>
            \<and> map_option status (map_of (cache m') key) \<noteq> Some ''pending'')
       \<and> (\<exists>m'. markAsFailed now key err m = Inr m'
            \<and> map_of (cache m') key =
                Some \<lparr>idempotencyKey = key,
                      result = [(''error'', JObj (errorObj err)), (''failedAt'', JDate now)],
                      status = ''failed'', createdAt = now, expiresAt = now + ttl m\<rparr>
            \<and> map_option status (map_of (cache m') key) \<noteq> Some ''pending'')"
  using assms by (simp add: markAsCompleted_def markAsFailed_def idem_set_def update_conv')

theorem terminal_last_write_wins_witness:
  "map_of (cache (projr (markAsCompleted 2000 ''r1'' [(''messageId'', JStr ''m-2'')]
      \<lparr>cache =
         [(''r1'', \<lparr>idempotencyKey = ''r1'',
                   result = [(''messageId'', JStr ''m-1''), (''completedAt'', JDate 1000)],
                   status = ''completed'', createdAt = 1000, expiresAt = 86401000\<rparr>)],
       ttl = 86400000\<rparr>))) ''r1''
   = Some \<lparr>idempotencyKey = ''r1'',
           result = [(''messageId'', JStr ''m-2''), (''completedAt'', JDate 2000)],
           status = ''completed'', createdAt = 2000, expiresAt = 86402000\<rparr>"
  using terminal_last_write_wins [of "''r1''"
      "\<lparr>cache =
         [(''r1'', \<lparr>idempotencyKey = ''r1'',
                   result = [(''messageId'', JStr ''m-1''), (''completedAt'', JDate 1000)],
                   status = ''completed'', createdAt = 1000, expiresAt = 86401000\<rparr>)],
        ttl = 86400000\<rparr>"
      "\<lparr>idempotencyKey = ''r1'',
        result = [(''messageId'', JStr ''m-1''), (''completedAt'', JDate 1000)],
        status = ''completed'', createdAt = 1000, expiresAt = 86401000\<rparr>"
      2000 "[(''messageId'', JStr ''m-2'')]"]
  by (simp add: markAsCompleted_def idem_set_def spread_def)

text \<open>
  What the sweep loop computes, whatever list of entries it walks: the keys of the
  walked entries that are expired are deleted from the cache, and counted.
\<close>

lemma cleanupLoop_filter:
  "cleanupLoop now xs c n =
     (filter (\<lambda>(k, _). \<forall>e. (k, e) \<in> set xs \<longrightarrow> \<not> now > expiresAt e) c,
      n + int (length (filter (\<lambda>(k, e). now > expiresAt e) xs)))"
proof (induction xs arbitrary: c n)
  case Nil
  then show ?case by simp
next
  case (Cons x xs)
  obtain k e where x: "x = (k, e)" by (cases x)
  show ?case
  proof (cases "now > expiresAt e")
    case True
    have "filter (\<lambda>(k', _). \<forall>e'. (k', e') \<in> set xs \<longrightarrow> \<not> now > expiresAt e') (AList.delete k c)
        = filter (\<lambda>(k', _). \<forall>e'. (k', e') \<in> set ((k, e) # xs) \<longrightarrow> \<not> now > expiresAt e') c"
      unfolding AList.delete_eq filter_filter
      by (rule filter_cong) (use True in auto)
    then show ?thesis using True x Cons.IH by simp
  next
    case False
    have "filter (\<lambda>(k', _). \<forall>e'. (k', e') \<in> set xs \<longrightarrow> \<not> now > expiresAt e') c
        = filter (\<lambda>(k', _). \<forall>e'. (k', e') \<in> set ((k, e) # xs) \<longrightarrow> \<not> now > expiresAt e') c"
      by (rule filter_cong) (use False in auto)
    then show ?thesis using False x Cons.IH by simp
  qed
qed

lemma distinct_filter_keys:
  assumes "distinct (map fst c)"
  shows "filter (\<lambda>(k, _). \<forall>e. (k, e) \<in> set c \<longrightarrow> \<not> P e) c = filter (\<lambda>(k, e). \<not> P e) c"
proof (rule filter_cong[OF refl])
  fix x assume xin: "x \<in> set c"
  obtain k e where x: "x = (k, e)" by (cases x)
  have "(\<forall>e'. (k, e') \<in> set c \<longrightarrow> \<not> P e') \<longleftrightarrow> \<not> P e"
  proof
    assume "\<forall>e'. (k, e') \<in> set c \<longrightarrow> \<not> P e'"
    with xin x show "\<not> P e" by blast
  next
    assume np: "\<not> P e"
    show "\<forall>e'. (k, e') \<in> set c \<longrightarrow> \<not> P e'"
    proof (intro allI impI)
      fix e' assume "(k, e') \<in> set c"
      with assms xin x have "e' = e" by (meson eq_key_imp_eq_value)
      with np show "\<not> P e'" by simp
    qed
  qed
  then show "(case x of (k, _) \<Rightarrow> \<forall>e. (k, e) \<in> set c \<longrightarrow> \<not> P e) = (case x of (k, e) \<Rightarrow> \<not> P e)"
    using x by simp
qed

text \<open>
  C8. For every store (a \<open>Map\<close>, so with distinct keys) and every instant \<open>now\<close>,
  \<open>cleanupExpired\<close> removes exactly the records with \<open>expiresAt < now\<close>, leaves
  every other record as it was and in place, and returns the number removed.
\<close>

theorem cleanupExpired_exact:
  assumes "distinct (map fst (cache m))"
  shows "idem_cleanupExpired now m =
           (int (length (filter (\<lambda>(k, e). expiresAt e < now) (cache m))),
            m\<lparr>cache := filter (\<lambda>(k, e). \<not> expiresAt e < now) (cache m)\<rparr>)"
  using distinct_filter_keys[OF assms, of "\<lambda>e. expiresAt e < now"]
  by (simp add: idem_cleanupExpired_def cleanupLoop_filter)

theorem cleanupExpired_exact_witness:
  "idem_cleanupExpired 5000
     \<lparr>cache =
        [(''a'', \<lparr>idempotencyKey = ''a'', result = [], status = ''completed'',
                  createdAt = 0, expiresAt = 4999\<rparr>),
         (''b'', \<lparr>idempotencyKey = ''b'', result = [], status = ''pending'',
                  createdAt = 1, expiresAt = 5000\<rparr>),
         (''c'', \<lparr>idempotencyKey = ''c'', result = [], status = ''failed'',
                  createdAt = 2, expiresAt = 100\<rparr>)],
      ttl = 4999\<rparr>
   = (2,
      \<lparr>cache =
        [(''b'', \<lparr>idempotencyKey = ''b'', result = [], status = ''pending'',
                  createdAt = 1, expiresAt = 5000\<rparr>)],
       ttl = 4999\<rparr>)"
  using cleanupExpired_exact [of
     "\<lparr>cache =
        [(''a'', \<lparr>idempotencyKey = ''a'', result = [], status = ''completed'',
                  createdAt = 0, expiresAt = 4999\<rparr>),
         (''b'', \<lparr>idempotencyKey = ''b'', result = [], status = ''pending'',
                  createdAt = 1, expiresAt = 5000\<rparr>),
         (''c'', \<lparr>idempotencyKey = ''c'', result = [], status = ''failed'',
                  createdAt = 2, expiresAt = 100\<rparr>)],
      ttl = 4999\<rparr>" 5000]
  by simp

text \<open>
  C9. For a key whose stored record has \<open>expiresAt < now\<close>, \<open>get\<close> deletes the record
  and returns \<open>null\<close>; a record with \<open>expiresAt = now\<close> is returned and the store is
  untouched; and whatever the store and the key, a record that \<open>get\<close> returns is not
  expired. (No record is stored under the empty key: \<open>get\<close> and \<open>set\<close> throw on it.)
\<close>

theorem idem_get_expiry:
  "(key \<noteq> [] \<and> map_of (cache m) key = Some e \<and> expiresAt e < now \<longrightarrow>
      idem_get now key m = Inr (None, m\<lparr>cache := AList.delete key (cache m)\<rparr>)
    \<and> map_of (AList.delete key (cache m)) key = None)
   \<and> (key \<noteq> [] \<and> map_of (cache m) key = Some e \<and> expiresAt e = now \<longrightarrow>
      idem_get now key m = Inr (Some e, m))
   \<and> (idem_get now key m = Inr (Some e', m') \<longrightarrow> \<not> expiresAt e' < now)"
  by (auto simp: idem_get_def AList.delete_conv' split: option.splits if_splits)

theorem idem_get_expiry_witness:
  "idem_get 5000 ''a''
     \<lparr>cache =
        [(''a'', \<lparr>idempotencyKey = ''a'', result = [], status = ''completed'',
                  createdAt = 0, expiresAt = 4999\<rparr>),
         (''b'', \<lparr>idempotencyKey = ''b'', result = [], status = ''pending'',
                  createdAt = 1, expiresAt = 5000\<rparr>)],
      ttl = 4999\<rparr>
   = Inr (None,
      \<lparr>cache =
        [(''b'', \<lparr>idempotencyKey = ''b'', result = [], status = ''pending'',
                  createdAt = 1, expiresAt = 5000\<rparr>)],
       ttl = 4999\<rparr>)
   \<and> idem_get 5000 ''b''
     \<lparr>cache =
        [(''a'', \<lparr>idempotencyKey = ''a'', result = [], status = ''completed'',
                  createdAt = 0, expiresAt = 4999\<rparr>),
         (''b'', \<lparr>idempotencyKey = ''b'', result = [], status = ''pending'',
                  createdAt = 1, expiresAt = 5000\<rparr>)],
      ttl = 4999\<rparr>
   = Inr (Some \<lparr>idempotencyKey = ''b'', result = [], status = ''pending'',
                createdAt = 1, expiresAt = 5000\<rparr>,
      \<lparr>cache =
        [(''a'', \<lparr>idempotencyKey = ''a'', result = [], status = ''completed'',
                  createdAt = 0, expiresAt = 4999\<rparr>),
         (''b'', \<lparr>idempotencyKey = ''b'', result = [], status = ''pending'',
                  createdAt = 1, expiresAt = 5000\<rparr>)],
       ttl = 4999\<rparr>)
   \<and> \<not> expiresAt \<lparr>idempotencyKey = ''b'', result = [], status = ''pending'',
                createdAt = 1, expiresAt = 5000\<rparr> < 5000"
  using
    idem_get_expiry [of "''a''"
      "\<lparr>cache =
        [(''a'', \<lparr>idempotencyKey = ''a'', result = [], status = ''completed'',
                  createdAt = 0, expiresAt = 4999\<rparr>),
         (''b'', \<lparr>idempotencyKey = ''b'', result = [], status = ''pending'',
                  createdAt = 1, expiresAt = 5000\<rparr>)],
        ttl = 4999\<rparr>"
      "\<lparr>idempotencyKey = ''a'', result = [], status = ''completed'',
        createdAt = 0, expiresAt = 4999\<rparr>" 5000]
    idem_get_expiry [of "''b''"
      "\<lparr>cache =
        [(''a'', \<lparr>idempotencyKey = ''a'', result = [], status = ''completed'',
                  createdAt = 0, expiresAt = 4999\<rparr>),
         (''b'', \<lparr>idempotencyKey = ''b'', result = [], status = ''pending'',
                  createdAt = 1, expiresAt = 5000\<rparr>)],
        ttl = 4999\<rparr>"
      "\<lparr>idempotencyKey = ''b'', result = [], status = ''pending'',
        createdAt = 1, expiresAt = 5000\<rparr>" 5000
      "\<lparr>idempotencyKey = ''b'', result = [], status = ''pending'',
        createdAt = 1, expiresAt = 5000\<rparr>"
      "\<lparr>cache =
        [(''a'', \<lparr>idempotencyKey = ''a'', result = [], status = ''completed'',
                  createdAt = 0, expiresAt = 4999\<rparr>),
         (''b'', \<lparr>idempotencyKey = ''b'', result = [], status = ''pending'',
                  createdAt = 1, expiresAt = 5000\<rparr>)],
        ttl = 4999\<rparr>"]
  by simp

section \<open>Properties of the queue\<close>

text \<open>
  The scan started at index \<open>i\<close> with a best pair either leaves the pair alone,
  when no job of the scanned part is ready with a greater priority, or ends on the
  first ready job of the greatest priority in the scanned part.
\<close>

lemma scanBest_spec:
  "scanBest now js i (bi, bp) = (bi', bp') \<Longrightarrow>
     (bi' = bi \<and> bp' = bp \<and> (\<forall>x\<in>set js. ready now x \<longrightarrow> job_priority x \<le> bp))
   \<or> (\<exists>k<length js. bi' = i + int k \<and> ready now (js ! k) \<and> bp' = job_priority (js ! k)
         \<and> bp < bp'
         \<and> (\<forall>x\<in>set js. ready now x \<longrightarrow> job_priority x \<le> bp')
         \<and> (\<forall>x\<in>set (take k js). ready now x \<longrightarrow> job_priority x < bp'))"
proof (induction js arbitrary: i bi bp)
  case Nil
  then show ?case by simp
next
  case (Cons j js)
  show ?case
  proof (cases "ready now j \<and> job_priority j > bp")
    case True
    with Cons.prems have run: "scanBest now js (i + 1) (i, job_priority j) = (bi', bp')"
      by simp
    from Cons.IH[OF run] show ?thesis
    proof
      assume h: "bi' = i \<and> bp' = job_priority j
                 \<and> (\<forall>x\<in>set js. ready now x \<longrightarrow> job_priority x \<le> job_priority j)"
      have "0 < length (j # js) \<and> bi' = i + int 0 \<and> ready now ((j # js) ! 0)
            \<and> bp' = job_priority ((j # js) ! 0) \<and> bp < bp'
            \<and> (\<forall>x\<in>set (j # js). ready now x \<longrightarrow> job_priority x \<le> bp')
            \<and> (\<forall>x\<in>set (take 0 (j # js)). ready now x \<longrightarrow> job_priority x < bp')"
        using h True by simp
      then show ?thesis by blast
    next
      assume "\<exists>k<length js. bi' = i + 1 + int k \<and> ready now (js ! k)
                \<and> bp' = job_priority (js ! k) \<and> job_priority j < bp'
                \<and> (\<forall>x\<in>set js. ready now x \<longrightarrow> job_priority x \<le> bp')
                \<and> (\<forall>x\<in>set (take k js). ready now x \<longrightarrow> job_priority x < bp')"
      then obtain k where k: "k < length js" "bi' = i + 1 + int k" "ready now (js ! k)"
          "bp' = job_priority (js ! k)" "job_priority j < bp'"
          "\<forall>x\<in>set js. ready now x \<longrightarrow> job_priority x \<le> bp'"
          "\<forall>x\<in>set (take k js). ready now x \<longrightarrow> job_priority x < bp'"
        by blast
      have "Suc k < length (j # js) \<and> bi' = i + int (Suc k) \<and> ready now ((j # js) ! Suc k)
            \<and> bp' = job_priority ((j # js) ! Suc k) \<and> bp < bp'
            \<and> (\<forall>x\<in>set (j # js). ready now x \<longrightarrow> job_priority x \<le> bp')
            \<and> (\<forall>x\<in>set (take (Suc k) (j # js)). ready now x \<longrightarrow> job_priority x < bp')"
        using k True by auto
      then show ?thesis by blast
    qed
  next
    case False
    with Cons.prems have run: "scanBest now js (i + 1) (bi, bp) = (bi', bp')"
      by auto
    from Cons.IH[OF run] show ?thesis
    proof
      assume "bi' = bi \<and> bp' = bp \<and> (\<forall>x\<in>set js. ready now x \<longrightarrow> job_priority x \<le> bp)"
      then show ?thesis using False by auto
    next
      assume "\<exists>k<length js. bi' = i + 1 + int k \<and> ready now (js ! k)
                \<and> bp' = job_priority (js ! k) \<and> bp < bp'
                \<and> (\<forall>x\<in>set js. ready now x \<longrightarrow> job_priority x \<le> bp')
                \<and> (\<forall>x\<in>set (take k js). ready now x \<longrightarrow> job_priority x < bp')"
      then obtain k where k: "k < length js" "bi' = i + 1 + int k" "ready now (js ! k)"
          "bp' = job_priority (js ! k)" "bp < bp'"
          "\<forall>x\<in>set js. ready now x \<longrightarrow> job_priority x \<le> bp'"
          "\<forall>x\<in>set (take k js). ready now x \<longrightarrow> job_priority x < bp'"
        by blast
      have "Suc k < length (j # js) \<and> bi' = i + int (Suc k) \<and> ready now ((j # js) ! Suc k)
            \<and> bp' = job_priority ((j # js) ! Suc k) \<and> bp < bp'
            \<and> (\<forall>x\<in>set (j # js). ready now x \<longrightarrow> job_priority x \<le> bp')
            \<and> (\<forall>x\<in>set (take (Suc k) (j # js)). ready now x \<longrightarrow> job_priority x < bp')"
        using k False by auto
      then show ?thesis by blast
    qed
  qed
qed

lemma insertByPriority_takeWhile:
  "insertByPriority j xs =
     takeWhile (\<lambda>x. job_priority x \<ge> job_priority j) xs
     @ j # dropWhile (\<lambda>x. job_priority x \<ge> job_priority j) xs"
  by (induction xs) auto

text \<open>
  C6. The claim: among the ready jobs of the highest priority the one submitted
  earliest is selected. The queue keeps no submission order: a job put back for a
  retry goes behind the queued jobs of its priority. In the run above \<open>job_a\<close>
  (created at 0) was put back behind \<open>job_b\<close> (created at 1); at instant 20000 both
  are ready with priority 0, and \<open>job_b\<close> is selected.
\<close>

theorem retried_job_loses_its_turn:
  "map job_id (queue afterRetry) = [''job_b'', ''job_a'']
   \<and> map job_createdAt (queue afterRetry) = [1, 0]
   \<and> map job_priority (queue afterRetry) = [0, 0]
   \<and> map (ready 20000) (queue afterRetry) = [True, True]
   \<and> map_option job_id (fst (getNextJob 20000 afterRetry)) = Some ''job_b''"
  by (simp add: afterRetry_def twoQueued_def getNextJob_def queue_add_def new_queue_def
      defaultQueueConfig_def temporaryFailure_def processJob_def orElse_def ready_def)

text \<open>
  C6, amended. For every queue whose priorities are not negative (the data model has
  them in 0..10) and every instant \<open>now\<close>: if no job is ready, none is selected and
  the queue is unchanged; otherwise the selected job is ready, no ready job has a
  higher priority, every ready job queued before it has a strictly lower priority
  (ties go to the job nearest the head of the queue), and exactly that job leaves
  the queue. \<open>_insertByPriority\<close> places a job behind every queued job of greater or
  equal priority at the head of the queue, so that within a priority the queue is in
  order of insertion, a retried job counting from its re-insertion.
\<close>

theorem getNextJob_selection:
  assumes "\<forall>x\<in>set (queue q). job_priority x \<ge> 0"
  shows "(case getNextJob now q of
            (None, q') \<Rightarrow> q' = q \<and> (\<forall>x\<in>set (queue q). \<not> ready now x)
          | (Some j, q') \<Rightarrow>
              (\<exists>k<length (queue q).
                  j = queue q ! k
                \<and> q' = q\<lparr>queue := take k (queue q) @ drop (k + 1) (queue q)\<rparr>
                \<and> ready now j
                \<and> (\<forall>x\<in>set (queue q). ready now x \<longrightarrow> job_priority x \<le> job_priority j)
                \<and> (\<forall>x\<in>set (take k (queue q)). ready now x \<longrightarrow> job_priority x < job_priority j)))
       \<and> insertByPriority j0 xs =
           takeWhile (\<lambda>x. job_priority x \<ge> job_priority j0) xs
           @ j0 # dropWhile (\<lambda>x. job_priority x \<ge> job_priority j0) xs"
proof -
  obtain bi bp where run: "scanBest now (queue q) 0 (- 1, - 1) = (bi, bp)"
    by (cases "scanBest now (queue q) 0 (- 1, - 1)")
  from scanBest_spec[OF run] have first: "(case getNextJob now q of
            (None, q') \<Rightarrow> q' = q \<and> (\<forall>x\<in>set (queue q). \<not> ready now x)
          | (Some j, q') \<Rightarrow>
              (\<exists>k<length (queue q).
                  j = queue q ! k
                \<and> q' = q\<lparr>queue := take k (queue q) @ drop (k + 1) (queue q)\<rparr>
                \<and> ready now j
                \<and> (\<forall>x\<in>set (queue q). ready now x \<longrightarrow> job_priority x \<le> job_priority j)
                \<and> (\<forall>x\<in>set (take k (queue q)). ready now x \<longrightarrow> job_priority x < job_priority j)))"
  proof
    assume h: "bi = - 1 \<and> bp = - 1
               \<and> (\<forall>x\<in>set (queue q). ready now x \<longrightarrow> job_priority x \<le> - 1)"
    have "\<forall>x\<in>set (queue q). \<not> ready now x"
    proof
      fix x assume x: "x \<in> set (queue q)"
      with assms have "job_priority x \<ge> 0" by blast
      moreover from h x have "ready now x \<longrightarrow> job_priority x \<le> - 1" by blast
      ultimately show "\<not> ready now x" by auto
    qed
    with h run show ?thesis by (simp add: getNextJob_def)
  next
    assume "\<exists>k<length (queue q). bi = 0 + int k \<and> ready now (queue q ! k)
              \<and> bp = job_priority (queue q ! k) \<and> - 1 < bp
              \<and> (\<forall>x\<in>set (queue q). ready now x \<longrightarrow> job_priority x \<le> bp)
              \<and> (\<forall>x\<in>set (take k (queue q)). ready now x \<longrightarrow> job_priority x < bp)"
    then obtain k where k: "k < length (queue q)" "bi = int k" "ready now (queue q ! k)"
        "bp = job_priority (queue q ! k)"
        "\<forall>x\<in>set (queue q). ready now x \<longrightarrow> job_priority x \<le> bp"
        "\<forall>x\<in>set (take k (queue q)). ready now x \<longrightarrow> job_priority x < bp"
      by auto
    have "getNextJob now q =
            (Some (queue q ! k), q\<lparr>queue := take k (queue q) @ drop (k + 1) (queue q)\<rparr>)"
      using run k(1,2) by (simp add: getNextJob_def)
    then show ?thesis using k by auto
  qed
  show ?thesis using first insertByPriority_takeWhile by blast
qed


theorem getNextJob_selection_witness:
  "map_option job_id (fst (getNextJob 2 twoQueued)) = Some ''job_a''
   \<and> map job_id (queue (snd (getNextJob 2 twoQueued))) = [''job_b'']"
  using getNextJob_selection [of twoQueued 2]
  by (simp add: twoQueued_def getNextJob_def queue_add_def new_queue_def
      defaultQueueConfig_def orElse_def ready_def)

section \<open>Properties of the rate limiter\<close>

text \<open>
  C7. The claim: an exhausted bucket answers with \<open>retryAfterMs\<close> equal to
  \<open>windowStart + windowMs - now\<close>. \<open>checkLimit\<close> reports \<open>retryAfter\<close> in whole
  seconds, rounded up: with the window opened at 0, a window of 60000 ms and
  \<open>now = 1500\<close> it returns 59, where the claimed value is 58500.
\<close>

theorem exhausted_retryAfter_is_seconds:
  "res_retryAfter (fst (checkLimit \<lparr>windowMs = 60000, maxRequests = 1\<rparr> ''10.0.0.1'' 1500
     [(''10.0.0.1'', \<lparr>tokens = 0, lastRefill = 0, requests = [0]\<rparr>)])) = Some 59
   \<and> res_retryAfter (fst (checkLimit \<lparr>windowMs = 60000, maxRequests = 1\<rparr> ''10.0.0.1'' 1500
     [(''10.0.0.1'', \<lparr>tokens = 0, lastRefill = 0, requests = [0]\<rparr>)]))
     \<noteq> Some (0 + 60000 - 1500)"
  by (simp add: checkLimit_def refillBucket_def ceil_div_def)

text \<open>
  C7, amended. For a bucket whose tokens are exhausted within its window
  (\<open>tokens \<le> 0\<close> and \<open>now - lastRefill < windowMs\<close>), \<open>checkLimit\<close> returns
  \<open>allowed = false\<close> with \<open>resetTime = lastRefill + windowMs\<close> and \<open>retryAfter\<close> the
  number of seconds \<open>\<lceil>(lastRefill + windowMs - now) / 1000\<rceil>\<close>, and the buckets are
  unchanged. Every admitted request leaves its bucket with exactly one token less
  than the bucket had after the refill rule was applied; a refused request leaves
  the tokens as they were.
\<close>

theorem checkLimit_tokens:
  "(map_of buckets key = Some b \<and> tokens b \<le> 0 \<and> now - lastRefill b < windowMs cfg \<longrightarrow>
      checkLimit cfg key now buckets =
        (\<lparr>allowed = False, res_tokens = 0, resetTime = lastRefill b + windowMs cfg,
          res_retryAfter = Some (ceil_div (lastRefill b + windowMs cfg - now) 1000)\<rparr>,
         buckets))
   \<and> (allowed (fst (checkLimit cfg key now buckets)) \<longrightarrow>
        (\<exists>b1. b1 = refillBucket cfg now
                     (case map_of buckets key of None \<Rightarrow> freshBucket cfg now | Some b \<Rightarrow> b)
            \<and> tokens b1 > 0
            \<and> map_of (snd (checkLimit cfg key now buckets)) key =
                 Some (b1\<lparr>tokens := tokens b1 - 1, requests := requests b1 @ [now]\<rparr>)
            \<and> res_tokens (fst (checkLimit cfg key now buckets)) = tokens b1 - 1))
   \<and> (\<not> allowed (fst (checkLimit cfg key now buckets)) \<longrightarrow>
        map_option tokens (map_of (snd (checkLimit cfg key now buckets)) key) =
          Some (tokens (refillBucket cfg now
                     (case map_of buckets key of None \<Rightarrow> freshBucket cfg now | Some b \<Rightarrow> b))))"
proof (intro conjI impI)
  assume h: "map_of buckets key = Some b \<and> tokens b \<le> 0 \<and> now - lastRefill b < windowMs cfg"
  then have "refillBucket cfg now b = b" by (simp add: refillBucket_def)
  moreover have "AList.update key b buckets = buckets"
    using h by (simp add: update_triv)
  ultimately show "checkLimit cfg key now buckets =
        (\<lparr>allowed = False, res_tokens = 0, resetTime = lastRefill b + windowMs cfg,
          res_retryAfter = Some (ceil_div (lastRefill b + windowMs cfg - now) 1000)\<rparr>,
         buckets)"
    using h by (simp add: checkLimit_def)
next
  assume "allowed (fst (checkLimit cfg key now buckets))"
  then show "\<exists>b1. b1 = refillBucket cfg now
                     (case map_of buckets key of None \<Rightarrow> freshBucket cfg now | Some b \<Rightarrow> b)
            \<and> tokens b1 > 0
            \<and> map_of (snd (checkLimit cfg key now buckets)) key =
                 Some (b1\<lparr>tokens := tokens b1 - 1, requests := requests b1 @ [now]\<rparr>)
            \<and> res_tokens (fst (checkLimit cfg key now buckets)) = tokens b1 - 1"
    by (simp add: checkLimit_def Let_def update_conv' split: if_splits)
next
  assume "\<not> allowed (fst (checkLimit cfg key now buckets))"
  then show "map_option tokens (map_of (snd (checkLimit cfg key now buckets)) key) =
          Some (tokens (refillBucket cfg now
                     (case map_of buckets key of None \<Rightarrow> freshBucket cfg now | Some b \<Rightarrow> b)))"
    by (simp add: checkLimit_def Let_def update_conv' split: if_splits)
qed

theorem checkLimit_tokens_witness:
  "checkLimit \<lparr>windowMs = 60000, maxRequests = 2\<rparr> ''10.0.0.1'' 1500
     [(''10.0.0.1'', \<lparr>tokens = 0, lastRefill = 0, requests = [0, 700]\<rparr>)]
   = (\<lparr>allowed = False, res_tokens = 0, resetTime = 60000, res_retryAfter = Some 59\<rparr>,
      [(''10.0.0.1'', \<lparr>tokens = 0, lastRefill = 0, requests = [0, 700]\<rparr>)])
   \<and> map_of (snd (checkLimit \<lparr>windowMs = 60000, maxRequests = 2\<rparr> ''10.0.0.1'' 700
        [(''10.0.0.1'', \<lparr>tokens = 1, lastRefill = 0, requests = [0]\<rparr>)])) ''10.0.0.1''
     = Some \<lparr>tokens = 0, lastRefill = 0, requests = [0, 700]\<rparr>"
  using
    checkLimit_tokens [of "[(''10.0.0.1'', \<lparr>tokens = 0, lastRefill = 0, requests = [0, 700]\<rparr>)]"
      "''10.0.0.1''" "\<lparr>tokens = 0, lastRefill = 0, requests = [0, 700]\<rparr>" 1500
      "\<lparr>windowMs = 60000, maxRequests = 2\<rparr>"]
    checkLimit_tokens [of "[(''10.0.0.1'', \<lparr>tokens = 1, lastRefill = 0, requests = [0]\<rparr>)]"
      "''10.0.0.1''" "\<lparr>tokens = 1, lastRefill = 0, requests = [0]\<rparr>" 700
      "\<lparr>windowMs = 60000, maxRequests = 2\<rparr>"]
  by (simp add: checkLimit_def refillBucket_def ceil_div_def)

section \<open>Properties of the email service\<close>

lemma length_filter_insertByPriority:
  "length (filter P (insertByPriority j xs)) = length (filter P xs) + (if P j then 1 else 0)"
  by (induction xs) auto

lemma validate_key_nonempty: "validateEmailData d = None \<Longrightarrow> idemKey d \<noteq> []"
  by (auto simp: validateEmailData_def split: if_splits)

lemma idem_get_ttl: "idem_get now key m = Inr (r, m') \<Longrightarrow> ttl m' = ttl m"
  by (auto simp: idem_get_def split: if_splits option.splits)

text \<open>
  C3. The claim: a second submission of a request whose job is still queued is
  answered with status \<open>pending\<close>. \<open>sendEmail\<close> marks the record \<open>completed\<close> with
  the reply \<open>queued\<close> as soon as the job is in the queue, so the second submission
  finds a completed record and is answered with the stored reply, whose status is
  \<open>queued\<close>. (No second job is queued.)
\<close>

theorem duplicate_submit_replies_queued:
  "fst (sendEmail neverDirect 1500 ''job_2'' r5 afterFirstSubmit)
   = Inr [(''success'', JBool True), (''status'', JStr ''queued''),
          (''jobId'', JStr ''job_1''), (''idempotencyKey'', JStr ''r5''),
          (''message'', JStr ''Email queued for processing''),
          (''completedAt'', JDate 1000)]
   \<and> fst (sendEmail neverDirect 1500 ''job_2'' r5 afterFirstSubmit)
     \<noteq> Inr (pendingReply ''r5'')
   \<and> map job_id (queue (mailQueue afterFirstSubmit)) = [''job_1'']"
  by (simp add: afterFirstSubmit_def sendEmail_def r5_def freshService_def
      validateEmailData_def emailRegex_test_def plainChar_def isSpace_def idem_get_def
      markAsPending_def markAsCompleted_def idem_set_def spread_def queuedReply_def
      pendingReply_def queue_add_def new_queue_def defaultQueueConfig_def
      defaultServiceConfig_def orElse_def)

text \<open>
  C3, amended. With the queue enabled, let a valid request with no live record and no
  queued job for its key be submitted at \<open>now1\<close>, and submitted again at \<open>now2\<close>, not
  after the record expires, on the state the first submission left. The first
  submission is answered \<open>queued\<close>. The second is answered with the stored reply of
  the first (status \<open>queued\<close>, the same job id, and the instant of storing), changes
  nothing, and queues no job: the queue holds exactly one job for the key.
\<close>

theorem duplicate_submit_returns_cached:
  assumes queue_on: "enableQueue (svc_config s)"
    and valid: "validateEmailData d = None"
    and no_record: "idem_get now1 (idemKey d) (idem s) = Inr (None, m1)"
    and no_job: "filter (\<lambda>j. idemKey (job_data j) = idemKey d) (queue (mailQueue s)) = []"
    and live: "now2 \<le> now1 + ttl (idem s)"
    and first: "sendEmail direct now1 jid1 d s = (r1, t1, s1)"
  shows "r1 = Inr (queuedReply jid1 (idemKey d))
       \<and> sendEmail direct now2 jid2 d s1 =
           (Inr (spread (queuedReply jid1 (idemKey d)) [(''completedAt'', JDate now1)]),
            now2, s1)
       \<and> map_of (spread (queuedReply jid1 (idemKey d)) [(''completedAt'', JDate now1)])
            ''status'' = Some (JStr ''queued'')
       \<and> length (filter (\<lambda>j. idemKey (job_data j) = idemKey d) (queue (mailQueue s1))) = 1"
proof -
  let ?key = "idemKey d"
  let ?E = "\<lparr>idempotencyKey = ?key,
             result = spread (queuedReply jid1 ?key) [(''completedAt'', JDate now1)],
             status = ''completed'', createdAt = now1, expiresAt = now1 + ttl (idem s)\<rparr>"
  have key: "?key \<noteq> []" using valid by (rule validate_key_nonempty)
  have ttl1: "ttl m1 = ttl (idem s)" using no_record by (rule idem_get_ttl)
  obtain q' where add: "queue_add now1 jid1
        \<lparr>to = to d, subject = subject d, body = body d, idemKey = ?key,
         priority = Some (case priority d of None \<Rightarrow> 0 | Some p \<Rightarrow> p),
         delay = Some (case delay d of None \<Rightarrow> 0 | Some t \<Rightarrow> t)\<rparr>
        \<lparr>opt_priority = None, opt_delay = None\<rparr> (mailQueue s) = (jid1, q')"
    by (simp add: queue_add_def Let_def)
  obtain m3 where run: "sendEmail direct now1 jid1 d s =
        (Inr (queuedReply jid1 ?key), now1, s\<lparr>mailQueue := q', idem := m3\<rparr>)"
    and m3: "map_of (cache m3) ?key = Some ?E" "ttl m3 = ttl (idem s)"
    using queue_on valid no_record key ttl1 add
    by (simp add: sendEmail_def markAsPending_def markAsCompleted_def idem_set_def
        update_conv')
  from run first have r1: "r1 = Inr (queuedReply jid1 ?key)"
    and s1: "s1 = s\<lparr>mailQueue := q', idem := m3\<rparr>" by simp_all
  have second: "sendEmail direct now2 jid2 d s1 =
           (Inr (spread (queuedReply jid1 ?key) [(''completedAt'', JDate now1)]), now2, s1)"
    using valid key m3 live s1 by (simp add: sendEmail_def idem_get_def)
  have st: "map_of (spread (queuedReply jid1 ?key) [(''completedAt'', JDate now1)])
            ''status'' = Some (JStr ''queued'')"
    by (simp add: spread_def queuedReply_def update_conv')
  have "\<exists>j. queue q' = insertByPriority j (queue (mailQueue s)) \<and> idemKey (job_data j) = ?key"
    using add by (auto simp: queue_add_def Let_def)
  then have cnt: "length (filter (\<lambda>j. idemKey (job_data j) = ?key) (queue (mailQueue s1))) = 1"
    using no_job s1 by (auto simp: length_filter_insertByPriority)
  show ?thesis using r1 second st cnt by blast
qed

theorem duplicate_submit_returns_cached_witness:
  "sendEmail neverDirect 1500 ''job_2'' r5 afterFirstSubmit
   = (Inr [(''success'', JBool True), (''status'', JStr ''queued''),
           (''jobId'', JStr ''job_1''), (''idempotencyKey'', JStr ''r5''),
           (''message'', JStr ''Email queued for processing''),
           (''completedAt'', JDate 1000)], 1500, afterFirstSubmit)
   \<and> length (filter (\<lambda>j. idemKey (job_data j) = ''r5'') (queue (mailQueue afterFirstSubmit))) = 1"
  using duplicate_submit_returns_cached [of freshService r5 1000
      "\<lparr>cache = [], ttl = 86400000\<rparr>" 1500 neverDirect "''job_1''"
      "fst (sendEmail neverDirect 1000 ''job_1'' r5 freshService)"
      "fst (snd (sendEmail neverDirect 1000 ''job_1'' r5 freshService))"
      afterFirstSubmit "''job_2''"]
  by (simp add: afterFirstSubmit_def r5_def freshService_def
      validateEmailData_def emailRegex_test_def plainChar_def isSpace_def idem_get_def
      spread_def queuedReply_def new_queue_def defaultQueueConfig_def defaultServiceConfig_def)

text \<open>
  C4. The claim: a retryable failure on a non-final attempt that carries a
  retry-after value makes the engine wait exactly that many milliseconds before the
  next attempt. The secondary provider throws its rate-limit error with
  \<open>retryAfter = 10000\<close>, meant as 10 seconds; \<open>_sendWithProvider\<close> multiplies the
  value by 1000, so when the first attempt on the secondary fails with that error and
  the second succeeds, the one sleep is 10 000 000 ms, not 10 000 ms.
\<close>

theorem quota_hint_multiplied:
  "snd (snd (snd (snd (sendWithProviderFromStart defaultServiceConfig scripted 0
      (Some (new_breaker ''secondary''
         \<lparr>failureThreshold = 5, successThreshold = 2, timeout = 30000\<rparr>))
      [Inl quotaExceeded, Inr ''m-2''])))) = [10000000]"
  by (simp add: sendWithProviderFromStart_def sendWithProvider.simps callProvider_def
      execute_def scripted_def quotaExceeded_def new_breaker_def onFailure_def
      onSuccess_def actualDelay_def defaultServiceConfig_def)

end
